theory Spec2Isabelle
  imports Complex_Main "HOL-Library.Word"
begin

unbundle bit_operations_syntax

section \<open>The amplitude vector and the kernel of \<open>src/grover.c\<close>\<close>

text \<open>
  The amplitude vector \<open>double *a\<close> of length \<open>N\<close> is a \<open>real list\<close>. A C \<open>double\<close> is
  modelled by an exact real number: every theorem below is a statement about the
  program's arithmetic carried out without rounding.
\<close>

type_synonym amplitudes = "real list"

text \<open>
  \<open>init_state\<close> (grover.c, lines 28-31): \<open>v = 1.0 / sqrt((double)N)\<close>, then every slot of
  the vector is set to \<open>v\<close>.
\<close>

definition init_state :: "nat \<Rightarrow> amplitudes" where
  "init_state N = (let v = 1 / sqrt (real N) in replicate N v)"

text \<open>
  The function \<open>oracle\<close> of grover.c (line 34): \<open>a[target] = -a[target]\<close>, named
  \<open>oracle_op\<close> here. The C code does not check \<open>target\<close>; an index outside the vector
  is undefined behaviour there, and the theorems about \<open>oracle_op\<close> carry the
  precondition \<open>target < length a\<close>.
\<close>

definition oracle_op :: "amplitudes \<Rightarrow> nat \<Rightarrow> amplitudes" where
  "oracle_op a target = a[target := - (a ! target)]"

text \<open>
  The accumulation loop \<open>for (i = 0; i < N; ++i) sum += a[i]\<close>, with \<open>sum\<close> holding
  \<open>s\<close> before the loop, left to right.
\<close>

fun sum_loop :: "real \<Rightarrow> amplitudes \<Rightarrow> real" where
  "sum_loop s [] = s"
| "sum_loop s (x # xs) = sum_loop (s + x) xs"

text \<open>The update loop \<open>for (i = 0; i < N; ++i) a[i] = 2.0 * mean - a[i]\<close>.\<close>

fun reflect_loop :: "real \<Rightarrow> amplitudes \<Rightarrow> amplitudes" where
  "reflect_loop mean [] = []"
| "reflect_loop mean (x # xs) = (2 * mean - x) # reflect_loop mean xs"

text \<open>\<open>diffusion_serial\<close> (grover.c, lines 37-42), with \<open>N = length a\<close>.\<close>

definition diffusion_serial :: "amplitudes \<Rightarrow> amplitudes" where
  "diffusion_serial a =
     (let s = sum_loop 0 a;
          mean = s / real (length a)
      in reflect_loop mean a)"

subsection \<open>The OpenMP work sharing\<close>

text \<open>
  Modelled from the spec: the OpenMP runtime (\<open>omp.h\<close>, \<open>omp_set_num_threads\<close>, the
  \<open>parallel for\<close> schedule and the \<open>reduction(+ : sum)\<close> combiner) is not part of the
  repository. Following section 4.4 of the specification, the \<open>T\<close> workers own disjoint,
  contiguous index partitions of size about \<open>N / T\<close> (the first \<open>N mod T\<close> workers own
  one index more), every worker sums its own partition into a private copy that starts
  at \<open>0\<close>, and the private copies are combined into the shared \<open>sum\<close>.
\<close>

definition omp_chunk_sizes :: "nat \<Rightarrow> nat \<Rightarrow> nat list" where
  "omp_chunk_sizes N T =
     map (\<lambda>w. if w < N mod T then N div T + 1 else N div T) [0..<T]"

fun omp_split :: "nat list \<Rightarrow> 'a list \<Rightarrow> 'a list list" where
  "omp_split [] xs = []"
| "omp_split (k # ks) xs = take k xs # omp_split ks (drop k xs)"

definition omp_partition :: "nat \<Rightarrow> 'a list \<Rightarrow> 'a list list" where
  "omp_partition T xs = omp_split (omp_chunk_sizes (length xs) T) xs"

text \<open>
  \<open>omp_set_num_threads(threads)\<close> fixes the team of the next parallel region. The code
  passes \<open>threads\<close> on unchecked, and OpenMP leaves a request below one to the
  implementation; a team always holds the thread that meets the region, so such a
  request is modelled as a team of one worker. In exact arithmetic the result of the
  diffusion is the same for every team of at least one worker (\<open>omp_reduce_sum_eq\<close> and
  \<open>omp_reflect_eq\<close> below).
\<close>

definition omp_team_size :: "int \<Rightarrow> nat" where
  "omp_team_size threads = (if threads < 1 then 1 else nat threads)"

text \<open>
  Modelled from the spec: \<open>#pragma omp parallel for reduction(+ : sum)\<close> over the
  accumulation loop, with the shared \<open>sum\<close> holding \<open>s0\<close> before the region. The private
  sums are added to it in the order of the workers.
\<close>

definition omp_reduce_sum :: "nat \<Rightarrow> real \<Rightarrow> amplitudes \<Rightarrow> real" where
  "omp_reduce_sum T s0 a = sum_loop s0 (map (sum_loop 0) (omp_partition T a))"

text \<open>
  Modelled from the spec: \<open>#pragma omp parallel for\<close> over the update loop. Every worker
  rewrites its own partition, and the partitions lie in the vector in index order.
\<close>

definition omp_reflect :: "nat \<Rightarrow> real \<Rightarrow> amplitudes \<Rightarrow> amplitudes" where
  "omp_reflect T mean a = concat (map (reflect_loop mean) (omp_partition T a))"

text \<open>\<open>diffusion_parallel\<close> (grover.c, lines 45-53).\<close>

definition diffusion_parallel :: "amplitudes \<Rightarrow> int \<Rightarrow> amplitudes" where
  "diffusion_parallel a threads =
     (let T = omp_team_size threads;
          s = omp_reduce_sum T 0 a;
          mean = s / real (length a)
      in omp_reflect T mean a)"

text \<open>
  The round loop of \<open>run_grover_once\<close> (grover.c, lines 66-72):
  \<open>for (int it = 0; it < iterations; ++it)\<close> applies the oracle and then the selected
  diffusion. \<open>grover_rounds k\<close> is the vector after \<open>k\<close> rounds; the loop runs
  \<open>nat iterations\<close> times (not at all when \<open>iterations \<le> 0\<close>).
\<close>

fun grover_rounds :: "nat \<Rightarrow> amplitudes \<Rightarrow> nat \<Rightarrow> bool \<Rightarrow> int \<Rightarrow> amplitudes" where
  "grover_rounds 0 a target parallel threads = a"
| "grover_rounds (Suc k) a target parallel threads =
     grover_rounds k
       (let a1 = oracle_op a target
        in if parallel then diffusion_parallel a1 threads else diffusion_serial a1)
       target parallel threads"

definition grover_loop :: "amplitudes \<Rightarrow> nat \<Rightarrow> int \<Rightarrow> bool \<Rightarrow> int \<Rightarrow> amplitudes" where
  "grover_loop a target iterations parallel threads =
     grover_rounds (nat iterations) a target parallel threads"

section \<open>The command line of \<open>src/grover.c\<close>\<close>

text \<open>
  \<open>is_power_of_two\<close> (grover.c, line 80) on \<open>unsigned long\<close>, 64 bits wide:
  \<open>x && ((x & (x - 1)) == 0)\<close>; the subtraction wraps.
\<close>

definition is_power_of_two :: "64 word \<Rightarrow> bool" where
  "is_power_of_two x = (x \<noteq> 0 \<and> x AND (x - 1) = 0)"

text \<open>
  The C library is not part of the repository. \<open>atoll\<close> and \<open>atoi\<close> read a decimal
  number as \<open>strtoll\<close> and \<open>strtol\<close> do in base 10: leading white space is skipped, one
  sign is accepted, the longest run of digits is converted, and a text without digits
  is \<open>0\<close>. A value outside \<open>long long\<close> saturates at the nearest bound, and \<open>atoi\<close>
  keeps the low 32 bits of the \<open>long\<close> as a signed \<open>int\<close>.
\<close>

definition isspace :: "char \<Rightarrow> bool" where
  "isspace c = (let n = (of_char c :: nat) in n = 32 \<or> (9 \<le> n \<and> n \<le> 13))"

definition isdigit :: "char \<Rightarrow> bool" where
  "isdigit c = (let n = (of_char c :: nat) in 48 \<le> n \<and> n \<le> 57)"

fun digits_value :: "int \<Rightarrow> string \<Rightarrow> int" where
  "digits_value acc [] = acc"
| "digits_value acc (c # cs) =
     (if isdigit c then digits_value (10 * acc + (of_char c - 48)) cs else acc)"

definition strtoll :: "string \<Rightarrow> int" where
  "strtoll nptr =
     (let t = dropWhile isspace nptr;
          v = (case t of
                 [] \<Rightarrow> 0
               | c # cs \<Rightarrow>
                   if c = CHR ''-'' then - digits_value 0 cs
                   else if c = CHR ''+'' then digits_value 0 cs
                   else digits_value 0 t)
      in max (- (2 ^ 63)) (min (2 ^ 63 - 1) v))"

definition atoll :: "string \<Rightarrow> int" where
  "atoll nptr = strtoll nptr"

definition atoi :: "string \<Rightarrow> int" where
  "atoi nptr = sint (word_of_int (strtoll nptr) :: 32 word)"

text \<open>
  The iteration count of \<open>main\<close> (grover.c, lines 95, 105 and 122):
  \<open>floor(M_PI/4.0 * sqrt((double)N))\<close>, before the conversion to \<open>int\<close>.
\<close>

definition grover_iterations :: "64 word \<Rightarrow> int" where
  "grover_iterations N = \<lfloor>pi / 4 * sqrt (real (unat N))\<rfloor>"

text \<open>
  What the program takes from its environment: whether \<open>malloc\<close> of a number of bytes
  returns storage, the value \<open>rand()\<close> returns on its first call after the generator was
  seeded with a given seed, and the two readings of \<open>now_seconds()\<close> of a run.
\<close>

record env =
  malloc_ok :: "64 word \<Rightarrow> bool"
  rand_first :: "nat \<Rightarrow> nat"
  clock_t0 :: real
  clock_t1 :: real

text \<open>
  A call of \<open>rand()\<close> before any call of \<open>srand\<close> behaves as after \<open>srand(1)\<close>
  (C standard, 7.22.2.2). \<open>rand()\<close> returns an \<open>int\<close> between \<open>0\<close> and \<open>RAND_MAX\<close>, which
  is at most \<open>2^31 - 1\<close>; \<open>rand_call\<close> brings the value of the environment into that
  range.
\<close>

definition initial_seed :: nat where
  "initial_seed = 1"

definition rand_call :: "env \<Rightarrow> nat \<Rightarrow> nat" where
  "rand_call e seed = rand_first e seed mod 2 ^ 31"

text \<open>
  A point where the C program has undefined behaviour: a write outside the storage
  \<open>malloc\<close> returned, or a conversion of a \<open>double\<close> that the \<open>int\<close> cannot hold; and,
  for the C++ programs, an exception that no handler catches.
\<close>

datatype fault = Undefined_behaviour | Uncaught_exception

text \<open>
  \<open>run_grover_once\<close> (grover.c, lines 56-78). The C function returns the elapsed time,
  or \<open>-1.0\<close> after the message \<open>allocation failed\<close>; the vector is freed before the
  return. \<open>final_state\<close> records the vector at the end of the round loop (\<open>None\<close> when
  no vector was obtained); the C caller cannot see it.

  \<open>malloc\<close> is asked for \<open>sizeof(double) * N\<close> bytes, a product that wraps at \<open>2^64\<close>;
  \<open>init_state\<close> then writes \<open>N\<close> doubles, and the oracle writes slot \<open>target\<close>.
\<close>

record grover_run =
  elapsed :: real
  run_stderr :: "string list"
  final_state :: "amplitudes option"

definition run_grover_once ::
  "env \<Rightarrow> 64 word \<Rightarrow> nat \<Rightarrow> int \<Rightarrow> bool \<Rightarrow> int \<Rightarrow> fault + grover_run" where
  "run_grover_once e N target iterations parallel threads =
     (if \<not> malloc_ok e (8 * N) then
        Inr \<lparr>elapsed = - 1, run_stderr = [''allocation failed''], final_state = None\<rparr>
      else if unat (8 * N) < 8 * unat N then Inl Undefined_behaviour
      else if 0 < iterations \<and> \<not> target < unat N then Inl Undefined_behaviour
      else
        let a = init_state (unat N);
            t0 = clock_t0 e;
            a' = grover_loop a target iterations parallel threads;
            t1 = clock_t1 e
        in Inr \<lparr>elapsed = t1 - t0, run_stderr = [], final_state = Some a'\<rparr>)"

text \<open>
  One line of standard output, \<open>printf("serial,%zu,%d,1,%.9f\n", N, iterations, t)\<close> or
  \<open>printf("parallel,%zu,%d,%d,%.9f\n", N, iterations, threads, t)\<close>: the mode, \<open>N\<close>, the
  iteration count, the thread count and the time. \<open>Time_line\<close> is the line of the C++
  programs, which print the time alone.
\<close>

datatype output_line = Record_line string nat int int real | Time_line real

text \<open>
  What a return from \<open>main\<close> leaves behind: the exit status and the lines written to
  standard output and standard error. \<open>target_used\<close> and \<open>vector_state\<close> record the
  target index passed to the run and the vector the run ended with; the process does
  not print them.
\<close>

record process_result =
  exit_status :: int
  stdout :: "output_line list"
  stderr :: "string list"
  target_used :: "nat option"
  vector_state :: "amplitudes option"

text \<open>
  \<open>Default_sweep\<close>: control reached line 113, the sweep that writes
  \<open>data/results.csv\<close> (and the only place that calls \<open>srand\<close>). The sweep itself is not
  part of this model.
\<close>

datatype outcome = Exited process_result | Default_sweep

text \<open>
  \<open>main\<close> (grover.c, lines 82-111): the two single-run branches. \<open>argc\<close> is the length
  of \<open>argv\<close>, and \<open>size_t\<close> is 64 bits wide.
\<close>

definition main :: "env \<Rightarrow> string list \<Rightarrow> fault + outcome" where
  "main e argv =
     (if 2 \<le> length argv \<and> argv ! 1 = ''serial'' \<and> 3 \<le> length argv then
        let N = (word_of_int (atoll (argv ! 2)) :: 64 word) in
        if \<not> is_power_of_two N then
          Inr (Exited \<lparr>exit_status = 1, stdout = [], stderr = [''N must be power of two''],
                       target_used = None, vector_state = None\<rparr>)
        else
          let iterations = grover_iterations N in
          if 2147483647 < iterations then Inl Undefined_behaviour
          else
            let target = rand_call e initial_seed mod unat N in
            (case run_grover_once e N target iterations False 1 of
               Inl f \<Rightarrow> Inl f
             | Inr r \<Rightarrow>
                 Inr (Exited \<lparr>exit_status = 0,
                              stdout = [Record_line ''serial'' (unat N) iterations 1 (elapsed r)],
                              stderr = run_stderr r,
                              target_used = Some target, vector_state = final_state r\<rparr>))
      else if 2 \<le> length argv \<and> argv ! 1 = ''parallel'' \<and> 4 \<le> length argv then
        let N = (word_of_int (atoll (argv ! 2)) :: 64 word);
            threads = atoi (argv ! 3) in
        if \<not> is_power_of_two N then
          Inr (Exited \<lparr>exit_status = 1, stdout = [], stderr = [''N must be power of two''],
                       target_used = None, vector_state = None\<rparr>)
        else
          let iterations = grover_iterations N in
          if 2147483647 < iterations then Inl Undefined_behaviour
          else
            let target = rand_call e initial_seed mod unat N in
            (case run_grover_once e N target iterations True threads of
               Inl f \<Rightarrow> Inl f
             | Inr r \<Rightarrow>
                 Inr (Exited \<lparr>exit_status = 0,
                              stdout = [Record_line ''parallel'' (unat N) iterations threads (elapsed r)],
                              stderr = run_stderr r,
                              target_used = Some target, vector_state = final_state r\<rparr>))
      else Inr Default_sweep)"

section \<open>The C++ programs\<close>

text \<open>
  \<open>grover_iteration\<close> (grover_serial.cpp, lines 9-24, and the same function in the serial
  program of \<open>src/unnamed/part_000\<close>). \<open>int n = amplitudes.size()\<close> keeps the low 32
  bits of the size as a signed number, both loops run over \<open>0 \<le> i < n\<close>, and
  \<open>avg /= n\<close> divides by that \<open>int\<close>. The index \<open>markedIndex\<close> is not checked; outside
  the vector it is undefined behaviour in C++.
\<close>

definition grover_iteration :: "amplitudes \<Rightarrow> int \<Rightarrow> amplitudes" where
  "grover_iteration amplitudes markedIndex =
     (let n = sint (word_of_nat (length amplitudes) :: 32 word);
          a1 = amplitudes[nat markedIndex := - (amplitudes ! nat markedIndex)];
          avg = sum_loop 0 (take (nat n) a1);
          avg = avg / real_of_int n
      in reflect_loop avg (take (nat n) a1) @ drop (nat n) a1)"

fun iteration_loop :: "nat \<Rightarrow> amplitudes \<Rightarrow> int \<Rightarrow> amplitudes" where
  "iteration_loop 0 amplitudes markedIndex = amplitudes"
| "iteration_loop (Suc k) amplitudes markedIndex =
     iteration_loop k (grover_iteration amplitudes markedIndex) markedIndex"

text \<open>
  \<open>main\<close> of the serial program in \<open>src/unnamed/part_000\<close> (lines 30-69), named
  \<open>grover_serial_main\<close> here. \<open>amplitudes.assign\<close> throws \<open>std::length_error\<close>, which
  the handler for \<open>std::bad_alloc\<close> does not catch, when asked for more than
  \<open>max_size()\<close> elements (\<open>2^60 - 1\<close> doubles), and \<open>std::bad_alloc\<close> when the storage
  of \<open>8 * nn\<close> bytes cannot be obtained.
\<close>

definition grover_serial_main :: "env \<Rightarrow> string list \<Rightarrow> fault + outcome" where
  "grover_serial_main e argv =
     (let n = (if 1 < length argv then atoll (argv ! 1) else 2 ^ 16) in
      if n \<le> 0 then
        Inr (Exited \<lparr>exit_status = 2, stdout = [], stderr = [''Invalid n''],
                     target_used = None, vector_state = None\<rparr>)
      else
        let nn = nat n in
        if 2 ^ 60 - 1 < nn then Inl Uncaught_exception
        else if \<not> malloc_ok e (8 * word_of_nat nn) then
          Inr (Exited \<lparr>exit_status = 3, stdout = [], stderr = [''ERROR:MEM''],
                       target_used = None, vector_state = None\<rparr>)
        else
          let amplitudes = replicate nn (1 / sqrt (real nn));
              markedIndex = nn div 3;
              iterations = \<lfloor>pi / 4 * sqrt (real nn)\<rfloor>;
              m = sint (word_of_nat markedIndex :: 32 word)
          in
          if 0 < iterations \<and> \<not> (0 \<le> m \<and> nat m < nn) then Inl Undefined_behaviour
          else
            let start = clock_t0 e;
                a' = iteration_loop (nat iterations) amplitudes m;
                finish = clock_t1 e
            in Inr (Exited \<lparr>exit_status = 0, stdout = [Time_line (finish - start)], stderr = [],
                            target_used = Some markedIndex, vector_state = Some a'\<rparr>))"

section \<open>Quantities and environments used in the statements\<close>

text \<open>The sum of the squares of the amplitudes.\<close>

definition sum_squares :: "amplitudes \<Rightarrow> real" where
  "sum_squares a = sum_list (map (\<lambda>x. x * x) a)"

text \<open>
  Three concrete environments. In the first two every \<open>malloc\<close> succeeds and the clocks
  differ; in the third no \<open>malloc\<close> succeeds. In all of them the first \<open>rand()\<close> after the
  seed \<open>s\<close> returns \<open>s + 4\<close>.
\<close>

definition malloc_succeeds :: "64 word \<Rightarrow> bool" where
  "malloc_succeeds bytes = True"

definition malloc_fails :: "64 word \<Rightarrow> bool" where
  "malloc_fails bytes = False"

definition example_rand :: "nat \<Rightarrow> nat" where
  "example_rand seed = seed + 4"

definition env_ok :: env where
  "env_ok = \<lparr>malloc_ok = malloc_succeeds, rand_first = example_rand,
             clock_t0 = 0, clock_t1 = 1\<rparr>"


definition env_no_memory :: env where
  "env_no_memory = \<lparr>malloc_ok = malloc_fails, rand_first = example_rand,
                    clock_t0 = 0, clock_t1 = 1\<rparr>"

section \<open>The diffusion over an uninterpreted arithmetic\<close>

text \<open>
  Rounded additions are not associative, so a statement about the order in which the
  sum is accumulated cannot be made over the real numbers. The two diffusion
  functions of grover.c are therefore written a second time, operation for operation,
  over an arithmetic of which nothing is assumed: \<open>fzero\<close> is the constant \<open>0.0\<close>,
  \<open>fadd\<close> the addition of \<open>sum += a[i]\<close> and of the reduction's combiner, \<open>fmean s N\<close>
  the quotient \<open>sum / (double)N\<close> and \<open>freflect mean x\<close> the value \<open>2.0 * mean - x\<close>.
\<close>

record 'a arith =
  fzero :: 'a
  fadd :: "'a \<Rightarrow> 'a \<Rightarrow> 'a"
  fmean :: "'a \<Rightarrow> nat \<Rightarrow> 'a"
  freflect :: "'a \<Rightarrow> 'a \<Rightarrow> 'a"

fun sum_loop_in :: "'a arith \<Rightarrow> 'a \<Rightarrow> 'a list \<Rightarrow> 'a" where
  "sum_loop_in ar s [] = s"
| "sum_loop_in ar s (x # xs) = sum_loop_in ar (fadd ar s x) xs"

fun reflect_loop_in :: "'a arith \<Rightarrow> 'a \<Rightarrow> 'a list \<Rightarrow> 'a list" where
  "reflect_loop_in ar mean [] = []"
| "reflect_loop_in ar mean (x # xs) = freflect ar mean x # reflect_loop_in ar mean xs"

text \<open>\<open>diffusion_serial\<close> (grover.c, lines 37-42).\<close>

definition diffusion_serial_in :: "'a arith \<Rightarrow> 'a list \<Rightarrow> 'a list" where
  "diffusion_serial_in ar a =
     (let s = sum_loop_in ar (fzero ar) a;
          mean = fmean ar s (length a)
      in reflect_loop_in ar mean a)"

text \<open>
  Modelled from the spec: the reduction and the work-shared update loop, as
  \<open>omp_reduce_sum\<close> and \<open>omp_reflect\<close> above. Every worker accumulates its partition
  left to right into a private copy that starts at \<open>fzero\<close>, and the private copies
  are added to the shared \<open>sum\<close> in the order of the workers.
\<close>

definition omp_reduce_sum_in :: "'a arith \<Rightarrow> nat \<Rightarrow> 'a \<Rightarrow> 'a list \<Rightarrow> 'a" where
  "omp_reduce_sum_in ar T s0 a =
     sum_loop_in ar s0 (map (sum_loop_in ar (fzero ar)) (omp_partition T a))"

definition omp_reflect_in :: "'a arith \<Rightarrow> nat \<Rightarrow> 'a \<Rightarrow> 'a list \<Rightarrow> 'a list" where
  "omp_reflect_in ar T mean a = concat (map (reflect_loop_in ar mean) (omp_partition T a))"

text \<open>\<open>diffusion_parallel\<close> (grover.c, lines 45-53).\<close>

definition diffusion_parallel_in :: "'a arith \<Rightarrow> 'a list \<Rightarrow> int \<Rightarrow> 'a list" where
  "diffusion_parallel_in ar a threads =
     (let T = omp_team_size threads;
          s = omp_reduce_sum_in ar T (fzero ar) a;
          mean = fmean ar s (length a)
      in omp_reflect_in ar T mean a)"

text \<open>The exact arithmetic of the real numbers, at which the functions above are the
  functions of the first section.\<close>

definition real_mean :: "real \<Rightarrow> nat \<Rightarrow> real" where
  "real_mean s N = s / real N"

definition real_reflect :: "real \<Rightarrow> real \<Rightarrow> real" where
  "real_reflect mean x = 2 * mean - x"

definition real_arith :: "real arith" where
  "real_arith = \<lparr>fzero = 0, fadd = (+), fmean = real_mean, freflect = real_reflect\<rparr>"

text \<open>
  A small rounded arithmetic on the integers: a sum of magnitude \<open>8\<close> or more is rounded
  down to a multiple of \<open>4\<close>, and the mean is the integer quotient. Its addition is not
  associative.
\<close>

definition round4 :: "int \<Rightarrow> int" where
  "round4 r = (if \<bar>r\<bar> < 8 then r else 4 * (r div 4))"

definition rounded_add :: "int \<Rightarrow> int \<Rightarrow> int" where
  "rounded_add x y = round4 (x + y)"

definition rounded_mean :: "int \<Rightarrow> nat \<Rightarrow> int" where
  "rounded_mean s N = s div int N"

definition rounded_reflect :: "int \<Rightarrow> int \<Rightarrow> int" where
  "rounded_reflect mean x = 2 * mean - x"

definition rounded_arith :: "int arith" where
  "rounded_arith =
     \<lparr>fzero = 0, fadd = rounded_add, fmean = rounded_mean, freflect = rounded_reflect\<rparr>"

section \<open>Facts about the loops\<close>

lemma sum_loop_sum_list: "sum_loop s xs = s + sum_list xs"
  by (induction xs arbitrary: s) simp_all

lemma reflect_loop_map: "reflect_loop m xs = map (\<lambda>x. 2 * m - x) xs"
  by (induction xs) simp_all

lemma length_reflect_loop: "length (reflect_loop m xs) = length xs"
  by (simp add: reflect_loop_map)

lemma reflect_loop_twice: "reflect_loop m (reflect_loop m xs) = xs"
  by (induction xs) simp_all

lemma sum_list_reflect_loop:
  "sum_list (reflect_loop m xs) = 2 * m * real (length xs) - sum_list xs"
  by (induction xs) (simp_all add: algebra_simps)

lemma reflect_loop_concat: "concat (map (reflect_loop m) xss) = reflect_loop m (concat xss)"
  by (induction xss) (simp_all add: reflect_loop_map)

lemma sum_list_partial_sums: "sum_list (map sum_list xss) = sum_list (concat xss)"
  by (induction xss) simp_all

subsection \<open>The partition covers the vector\<close>

lemma sum_list_omp_chunk_sizes:
  assumes T: "0 < T"
  shows "sum_list (omp_chunk_sizes N T) = N"
proof -
  have "sum_list (omp_chunk_sizes N T) =
      (\<Sum>w = 0..<T. if w < N mod T then N div T + 1 else N div T)"
    by (simp add: omp_chunk_sizes_def interv_sum_list_conv_sum_set_nat)
  also have "\<dots> = (\<Sum>w = 0..<T. N div T) + (\<Sum>w = 0..<T. if w < N mod T then 1 else 0)"
  proof -
    have "(if w < N mod T then N div T + 1 else N div T) =
        N div T + (if w < N mod T then 1 else 0)" for w
      by simp
    then show ?thesis
      by (simp only: sum.distrib)
  qed
  also have "(\<Sum>w = 0..<T. if w < N mod T then 1 else (0::nat)) =
      card ({0..<T} \<inter> {w. w < N mod T})"
    by (simp add: sum.If_cases)
  also have "{0..<T} \<inter> {w. w < N mod T} = {0..<N mod T}"
    using T by (auto intro: less_trans [OF _ mod_less_divisor])
  finally show ?thesis by simp
qed

lemma concat_omp_split: "length xs \<le> sum_list ks \<Longrightarrow> concat (omp_split ks xs) = xs"
  by (induction ks xs rule: omp_split.induct) auto

lemma concat_omp_partition: "0 < T \<Longrightarrow> concat (omp_partition T xs) = xs"
  by (simp add: omp_partition_def concat_omp_split sum_list_omp_chunk_sizes)

lemma omp_partition_one: "omp_partition (Suc 0) xs = [xs]"
  by (simp add: omp_partition_def omp_chunk_sizes_def)

lemma omp_partition_4_2: "omp_partition 2 [a, b, c, d] = [[a, b], [c, d]]"
  by (simp add: omp_partition_def omp_chunk_sizes_def upt_rec)

lemma omp_partition_4_4: "omp_partition 4 [a, b, c, d] = [[a], [b], [c], [d]]"
  by (simp add: omp_partition_def omp_chunk_sizes_def upt_rec)

lemma omp_team_size_pos: "0 < omp_team_size threads"
  by (simp add: omp_team_size_def)

lemma omp_reduce_sum_eq:
  assumes T: "0 < T"
  shows "omp_reduce_sum T s0 a = sum_loop s0 a"
proof -
  have "map (sum_loop 0) (omp_partition T a) = map sum_list (omp_partition T a)"
    by (simp add: sum_loop_sum_list)
  then have "omp_reduce_sum T s0 a = s0 + sum_list (concat (omp_partition T a))"
    by (simp only: omp_reduce_sum_def sum_loop_sum_list sum_list_partial_sums)
  then show ?thesis
    using T by (simp add: concat_omp_partition sum_loop_sum_list)
qed

lemma omp_reflect_eq: "0 < T \<Longrightarrow> omp_reflect T m a = reflect_loop m a"
  by (simp add: omp_reflect_def reflect_loop_concat concat_omp_partition)

lemma diffusion_parallel_serial: "diffusion_parallel a threads = diffusion_serial a"
  by (simp add: diffusion_parallel_def diffusion_serial_def Let_def omp_reduce_sum_eq
      omp_reflect_eq omp_team_size_pos)

subsection \<open>The mean and the sum of squares under the reflection\<close>

lemma length_diffusion_serial: "length (diffusion_serial a) = length a"
  by (simp add: diffusion_serial_def Let_def length_reflect_loop)

lemma length_oracle_op: "length (oracle_op a target) = length a"
  by (simp add: oracle_op_def)

lemma mean_diffusion_serial:
  "sum_loop 0 (diffusion_serial a) / real (length a) = sum_loop 0 a / real (length a)"
  by (cases "a = []")
    (simp_all add: diffusion_serial_def Let_def sum_loop_sum_list sum_list_reflect_loop
      length_reflect_loop field_simps)

lemma diffusion_serial_involution: "diffusion_serial (diffusion_serial a) = a"
proof -
  have "diffusion_serial (diffusion_serial a) =
      reflect_loop (sum_loop 0 (diffusion_serial a) / real (length a)) (diffusion_serial a)"
    by (simp add: diffusion_serial_def Let_def length_reflect_loop)
  also have "\<dots> = reflect_loop (sum_loop 0 a / real (length a)) (diffusion_serial a)"
    by (simp only: mean_diffusion_serial)
  also have "\<dots> = a"
    by (simp add: diffusion_serial_def Let_def reflect_loop_twice)
  finally show ?thesis .
qed

lemma sum_squares_reflect_loop:
  "sum_squares (reflect_loop m xs) =
     4 * m * m * real (length xs) - 4 * m * sum_list xs + sum_squares xs"
  by (induction xs) (simp_all add: sum_squares_def algebra_simps)

lemma sum_squares_diffusion_serial: "sum_squares (diffusion_serial a) = sum_squares a"
  by (cases "a = []")
    (simp_all add: diffusion_serial_def Let_def sum_squares_reflect_loop sum_loop_sum_list
      field_simps)

lemma sum_squares_oracle_op:
  "target < length a \<Longrightarrow> sum_squares (oracle_op a target) = sum_squares a"
proof (induction a arbitrary: target)
  case Nil
  then show ?case by simp
next
  case (Cons x xs)
  then show ?case
    by (cases target) (simp_all add: oracle_op_def sum_squares_def)
qed

lemma sum_squares_init_state: "0 < N \<Longrightarrow> sum_squares (init_state N) = 1"
  by (simp add: init_state_def sum_squares_def Let_def sum_list_replicate)

lemma length_init_state: "length (init_state N) = N"
  by (simp add: init_state_def Let_def)

subsection \<open>The round loop\<close>

lemma grover_round_serial:
  "(let a1 = oracle_op a target
    in if parallel then diffusion_parallel a1 threads else diffusion_serial a1) =
   diffusion_serial (oracle_op a target)"
  by (simp add: Let_def diffusion_parallel_serial)

lemma length_grover_rounds: "length (grover_rounds k a target parallel threads) = length a"
  by (induction k arbitrary: a)
    (simp_all add: grover_round_serial length_diffusion_serial length_oracle_op)

lemma sum_squares_grover_rounds:
  "target < length a \<Longrightarrow>
   sum_squares (grover_rounds k a target parallel threads) = sum_squares a"
proof (induction k arbitrary: a)
  case 0
  then show ?case by simp
next
  case (Suc k)
  have "sum_squares (grover_rounds (Suc k) a target parallel threads) =
      sum_squares (diffusion_serial (oracle_op a target))"
    using Suc.prems
    by (simp add: grover_round_serial Suc.IH length_diffusion_serial length_oracle_op)
  then show ?case
    using Suc.prems by (simp add: sum_squares_diffusion_serial sum_squares_oracle_op)
qed

lemma grover_loop_one:
  "grover_loop a target 1 parallel threads =
     (if parallel then diffusion_parallel (oracle_op a target) threads
      else diffusion_serial (oracle_op a target))"
  by (simp add: grover_loop_def Let_def)

lemma grover_loop_two:
  "grover_loop a target 2 parallel threads =
     grover_loop (grover_loop a target 1 parallel threads) target 1 parallel threads"
  by (simp add: grover_loop_def numeral_2_eq_2)

lemma grover_rounds_single:
  "grover_rounds k [x] 0 parallel threads = [(- 1) ^ k * x]"
proof (induction k arbitrary: x)
  case 0
  then show ?case by simp
next
  case (Suc k)
  have "diffusion_serial (oracle_op [x] 0) = [- x]"
    by (simp add: diffusion_serial_def oracle_op_def Let_def)
  then show ?case
    by (simp add: grover_round_serial Suc.IH)
qed

subsection \<open>Vectors of length four\<close>

lemma init_state_4: "init_state 4 = [1 / 2, 1 / 2, 1 / 2, 1 / 2]"
  by (simp add: init_state_def Let_def eval_nat_numeral)

lemma diffusion_serial_4:
  "diffusion_serial [a, b, c, d] =
     (let m = (0 + a + b + c + d) / 4 in [2 * m - a, 2 * m - b, 2 * m - c, 2 * m - d])"
  by (simp add: diffusion_serial_def Let_def)

lemma diffusion_parallel_4_1:
  "diffusion_parallel [a, b, c, d] 1 =
     (let m = (0 + (0 + a + b + c + d)) / 4 in [2 * m - a, 2 * m - b, 2 * m - c, 2 * m - d])"
  by (simp add: diffusion_parallel_def omp_team_size_def omp_reduce_sum_def omp_reflect_def
      Let_def omp_partition_one)

lemma diffusion_parallel_4_2:
  "diffusion_parallel [a, b, c, d] 2 =
     (let m = (0 + (0 + a + b) + (0 + c + d)) / 4
      in [2 * m - a, 2 * m - b, 2 * m - c, 2 * m - d])"
  by (simp add: diffusion_parallel_def omp_team_size_def omp_reduce_sum_def omp_reflect_def
      Let_def omp_partition_4_2)

lemma diffusion_parallel_4_4:
  "diffusion_parallel [a, b, c, d] 4 =
     (let m = (0 + (0 + a) + (0 + b) + (0 + c) + (0 + d)) / 4
      in [2 * m - a, 2 * m - b, 2 * m - c, 2 * m - d])"
  by (simp add: diffusion_parallel_def omp_team_size_def omp_reduce_sum_def omp_reflect_def
      Let_def omp_partition_4_4)

lemma oracle_op_4_1: "oracle_op [a, b, c, d] (Suc 0) = [a, - b, c, d]"
  by (simp add: oracle_op_def)

lemma grover_iteration_4_1:
  "grover_iteration [a, b, c, d] 1 =
     (let m = (0 + a + - b + c + d) / 4 in [2 * m - a, 2 * m - - b, 2 * m - c, 2 * m - d])"
  by (simp add: grover_iteration_def Let_def)

subsection \<open>The diffusion over an uninterpreted arithmetic\<close>

text \<open>At the exact arithmetic of the reals the functions are those of grover.c above.\<close>

lemma sum_loop_in_real: "sum_loop_in real_arith s xs = sum_loop s xs"
  by (induction xs arbitrary: s) (simp_all add: real_arith_def)

lemma reflect_loop_in_real: "reflect_loop_in real_arith m xs = reflect_loop m xs"
  by (induction xs) (simp_all add: real_arith_def real_reflect_def)

lemma diffusion_serial_in_real: "diffusion_serial_in real_arith a = diffusion_serial a"
  by (simp add: diffusion_serial_in_def diffusion_serial_def Let_def sum_loop_in_real
      reflect_loop_in_real) (simp add: real_arith_def real_mean_def)

lemma diffusion_parallel_in_real:
  "diffusion_parallel_in real_arith a threads = diffusion_parallel a threads"
proof -
  have "sum_loop_in real_arith (fzero real_arith) = sum_loop 0"
    by (rule ext) (simp add: sum_loop_in_real, simp add: real_arith_def)
  moreover have "reflect_loop_in real_arith m = reflect_loop m" for m
    by (rule ext) (simp add: reflect_loop_in_real)
  ultimately show ?thesis
    by (simp add: diffusion_parallel_in_def diffusion_parallel_def omp_reduce_sum_in_def
        omp_reduce_sum_def omp_reflect_in_def omp_reflect_def Let_def sum_loop_in_real)
      (simp add: real_arith_def real_mean_def)
qed

lemma sum_loop_in_keeps_zero:
  assumes step: "\<forall>x y. fadd ar (fzero ar) x = x \<longrightarrow>
      fadd ar (fzero ar) (fadd ar x y) = fadd ar x y"
  shows "fadd ar (fzero ar) s = s \<Longrightarrow>
    fadd ar (fzero ar) (sum_loop_in ar s xs) = sum_loop_in ar s xs"
proof (induction xs arbitrary: s)
  case Nil
  then show ?case by simp
next
  case (Cons x xs)
  from step Cons.prems have "fadd ar (fzero ar) (fadd ar s x) = fadd ar s x"
    by blast
  then show ?case
    by (simp add: Cons.IH)
qed

lemma round4_idem: "round4 (round4 r) = round4 r"
  by (simp add: round4_def)

lemma rounded_zero: "fadd rounded_arith (fzero rounded_arith) (fzero rounded_arith) = fzero rounded_arith"
  by (simp add: rounded_arith_def rounded_add_def round4_def)

lemma rounded_sums_keep_zero:
  "\<forall>x y. fadd rounded_arith (fzero rounded_arith) x = x \<longrightarrow>
     fadd rounded_arith (fzero rounded_arith) (fadd rounded_arith x y) = fadd rounded_arith x y"
  by (simp add: rounded_arith_def rounded_add_def round4_idem)

lemma rounded_add_not_assoc:
  "rounded_add (rounded_add 8 2) 2 = 8 \<and> rounded_add 8 (rounded_add 2 2) = 12"
  by (simp add: rounded_add_def round4_def)

lemma rounded_serial: "diffusion_serial_in rounded_arith [8, 1, 2, 2] = [- 4, 3, 2, 2]"
  by (simp add: diffusion_serial_in_def rounded_arith_def rounded_add_def round4_def
      rounded_mean_def rounded_reflect_def Let_def)

lemma rounded_parallel_2: "diffusion_parallel_in rounded_arith [8, 1, 2, 2] 2 = [- 2, 5, 4, 4]"
  by (simp add: diffusion_parallel_in_def omp_team_size_def omp_reduce_sum_in_def
      omp_reflect_in_def omp_partition_4_2 rounded_arith_def rounded_add_def round4_def
      rounded_mean_def rounded_reflect_def Let_def)

section \<open>The kernel: oracle, diffusion and the round loop\<close>

text \<open>
  Claim C1. For \<open>N = 4\<close> the initial vector is \<open>[0.5, 0.5, 0.5, 0.5]\<close>. With target index
  \<open>1\<close>, the oracle gives \<open>[0.5, -0.5, 0.5, 0.5]\<close>, whose mean is \<open>0.25\<close>, and the diffusion
  gives \<open>[0, 1, 0, 0]\<close>; in the second round the oracle gives \<open>[0, -1, 0, 0]\<close>, whose mean
  is \<open>-0.25\<close>, and the diffusion gives \<open>[-0.5, 0.5, -0.5, -0.5]\<close>. The round loop of
  \<open>run_grover_once\<close> returns exactly these vectors after one and after two rounds, with
  the serial diffusion and with the parallel diffusion on 1, 2 and 4 threads, and so
  does \<open>grover_iteration\<close> of the C++ programs.
\<close>

theorem end_to_end_N4:
  "init_state 4 = [1 / 2, 1 / 2, 1 / 2, 1 / 2]
   \<and> oracle_op [1 / 2, 1 / 2, 1 / 2, 1 / 2] 1 = [1 / 2, - (1 / 2), 1 / 2, 1 / 2]
   \<and> sum_loop 0 [1 / 2, - (1 / 2), 1 / 2, 1 / 2] / real (length [1 / 2, - (1 / 2), 1 / 2, 1 / 2 :: real]) = 1 / 4
   \<and> diffusion_serial [1 / 2, - (1 / 2), 1 / 2, 1 / 2] = [0, 1, 0, 0]
   \<and> oracle_op [0, 1, 0, 0] 1 = [0, - 1, 0, 0]
   \<and> sum_loop 0 [0, - 1, 0, 0] / real (length [0, - 1, 0, 0 :: real]) = - (1 / 4)
   \<and> diffusion_serial [0, - 1, 0, 0] = [- (1 / 2), 1 / 2, - (1 / 2), - (1 / 2)]
   \<and> grover_loop (init_state 4) 1 1 False 1 = [0, 1, 0, 0]
   \<and> grover_loop (init_state 4) 1 2 False 1 = [- (1 / 2), 1 / 2, - (1 / 2), - (1 / 2)]
   \<and> grover_loop (init_state 4) 1 1 True 1 = [0, 1, 0, 0]
   \<and> grover_loop (init_state 4) 1 2 True 1 = [- (1 / 2), 1 / 2, - (1 / 2), - (1 / 2)]
   \<and> grover_loop (init_state 4) 1 1 True 2 = [0, 1, 0, 0]
   \<and> grover_loop (init_state 4) 1 2 True 2 = [- (1 / 2), 1 / 2, - (1 / 2), - (1 / 2)]
   \<and> grover_loop (init_state 4) 1 1 True 4 = [0, 1, 0, 0]
   \<and> grover_loop (init_state 4) 1 2 True 4 = [- (1 / 2), 1 / 2, - (1 / 2), - (1 / 2)]
   \<and> grover_iteration (init_state 4) 1 = [0, 1, 0, 0]
   \<and> grover_iteration [0, 1, 0, 0] 1 = [- (1 / 2), 1 / 2, - (1 / 2), - (1 / 2)]"
  by (simp add: init_state_4 oracle_op_4_1 diffusion_serial_4 diffusion_parallel_4_1
      diffusion_parallel_4_2 diffusion_parallel_4_4 grover_iteration_4_1 grover_loop_one
      grover_loop_two Let_def)

text \<open>
  Claim C2. For every vector of length at least one and every thread count
  \<open>T \<ge> 1\<close>, applying the diffusion twice with no oracle in between gives the vector
  back, for the serial and for the parallel diffusion.
\<close>

theorem diffusion_twice_identity:
  "1 \<le> length a \<Longrightarrow> 1 \<le> T \<Longrightarrow>
   diffusion_serial (diffusion_serial a) = a
   \<and> diffusion_parallel (diffusion_parallel a T) T = a"
  by (simp add: diffusion_parallel_serial diffusion_serial_involution)

theorem diffusion_twice_identity_witness:
  "1 \<le> length [3, 1, 4 :: real] \<and> (1 :: int) \<le> 2
   \<and> diffusion_serial (diffusion_serial [3, 1, 4]) = [3, 1, 4]
   \<and> diffusion_parallel (diffusion_parallel [3, 1, 4] 2) 2 = [3, 1, 4]"
  using diffusion_twice_identity [of "[3, 1, 4]" 2] by simp

text \<open>
  Claim C3. With one thread the parallel diffusion returns the same vector as the
  serial diffusion, element by element, whatever the rounding of the arithmetic: the
  single worker owns the whole index range, so its private sum is the serial
  left-to-right accumulation, and the combiner adds it to the \<open>0.0\<close> held by the shared
  variable. Of the addition only this is used: \<open>0.0 + 0.0\<close> is \<open>0.0\<close>, and a sum whose
  left operand is unchanged by adding it to \<open>0.0\<close> is itself unchanged by adding it to
  \<open>0.0\<close> (in binary64 these are the values other than the negative zero). No
  associativity is assumed; in the rounded arithmetic of the witness two threads give
  another vector than the serial diffusion, one thread gives the same.
\<close>

theorem parallel_one_thread_equals_serial:
  assumes "fadd ar (fzero ar) (fzero ar) = fzero ar"
    and "\<forall>x y. fadd ar (fzero ar) x = x \<longrightarrow>
      fadd ar (fzero ar) (fadd ar x y) = fadd ar x y"
  shows "diffusion_parallel_in ar a 1 = diffusion_serial_in ar a"
proof -
  let ?private = "sum_loop_in ar (fzero ar) a"
  have team: "omp_team_size 1 = Suc 0"
    by (simp add: omp_team_size_def)
  have "omp_reduce_sum_in ar (Suc 0) (fzero ar) a = sum_loop_in ar (fzero ar) [?private]"
    by (simp only: omp_reduce_sum_in_def omp_partition_one list.map)
  also have "\<dots> = fadd ar (fzero ar) ?private"
    by simp
  also have "\<dots> = ?private"
    using assms(1) by (rule sum_loop_in_keeps_zero [OF assms(2)])
  finally have reduce: "omp_reduce_sum_in ar (Suc 0) (fzero ar) a = ?private" .
  have reflect: "omp_reflect_in ar (Suc 0) m a = reflect_loop_in ar m a" for m
    by (simp add: omp_reflect_in_def omp_partition_one)
  show ?thesis
    by (simp add: diffusion_parallel_in_def diffusion_serial_in_def Let_def team reduce reflect)
qed

theorem parallel_one_thread_equals_serial_witness:
  "fadd rounded_arith (fzero rounded_arith) (fzero rounded_arith) = fzero rounded_arith
   \<and> diffusion_parallel_in rounded_arith [8, 1, 2, 2] 1 = [- 4, 3, 2, 2]
   \<and> diffusion_serial_in rounded_arith [8, 1, 2, 2] = [- 4, 3, 2, 2]
   \<and> diffusion_parallel_in rounded_arith [8, 1, 2, 2] 2 = [- 2, 5, 4, 4]"
  using parallel_one_thread_equals_serial [OF rounded_zero rounded_sums_keep_zero, of "[8, 1, 2, 2]"]
  by (simp add: rounded_zero rounded_serial rounded_parallel_2)

text \<open>
  Claim C6. For a target index inside the vector, the oracle negates the slot
  \<open>target\<close>, leaves every other slot as it was, and keeps the length.
\<close>

theorem oracle_frame:
  "target < length a \<Longrightarrow>
   length (oracle_op a target) = length a
   \<and> oracle_op a target ! target = - (a ! target)
   \<and> (\<forall>i. i < length a \<and> i \<noteq> target \<longrightarrow> oracle_op a target ! i = a ! i)"
  by (simp add: oracle_op_def)

theorem oracle_frame_witness:
  "(1 :: nat) < length [3, 1, 4 :: real]
   \<and> length (oracle_op [3, 1, 4] 1) = 3
   \<and> oracle_op [3, 1, 4] 1 ! 1 = - 1
   \<and> oracle_op [3, 1, 4] 1 ! 0 = 3
   \<and> oracle_op [3, 1, 4] 1 ! 2 = 4"
  using oracle_frame [of 1 "[3, 1, 4]"] by simp

text \<open>
  Claim C8. For \<open>N = 1\<close> the initial vector is \<open>[1]\<close>, the diffusion (serial, or parallel
  on any number of threads) leaves a one-element vector unchanged, the oracle negates
  the element, and the round loop run for \<open>k\<close> iterations returns the element times
  \<open>(-1)^k\<close>: its magnitude is unchanged and its sign is \<open>(-1)^k\<close> times the initial sign.
\<close>

theorem single_element_vector:
  "init_state 1 = [1]
   \<and> diffusion_serial [x] = [x]
   \<and> diffusion_parallel [x] T = [x]
   \<and> oracle_op [x] 0 = [- x]
   \<and> grover_loop [x] 0 (int k) parallel T = [(- 1) ^ k * x]
   \<and> \<bar>grover_loop [x] 0 (int k) parallel T ! 0\<bar> = \<bar>x\<bar>
   \<and> sgn (grover_loop [x] 0 (int k) parallel T ! 0) = (- 1) ^ k * sgn x"
proof -
  have "diffusion_serial [x] = [x]"
    by (simp add: diffusion_serial_def Let_def)
  moreover have "sgn ((- 1) ^ k * x) = (- 1) ^ k * sgn x"
    by (simp add: sgn_mult power_minus' split: if_splits)
  ultimately show ?thesis
    by (simp add: init_state_def diffusion_parallel_serial oracle_op_def grover_loop_def
        grover_rounds_single abs_mult power_abs)
qed

text \<open>
  Claim C9. The sum of the squares of the amplitudes is preserved by the oracle (for a
  target inside the vector), by the serial and by the parallel diffusion (the
  reflection about \<open>m\<close> changes it by \<open>4 m^2 N - 4 m sum\<close>, which vanishes for the mean),
  and therefore by the round loop for every iteration count: started from
  \<open>init_state N\<close> with \<open>N \<ge> 1\<close>, the sum of squares is \<open>1\<close> and stays \<open>1\<close>.
\<close>

theorem sum_squares_preserved:
  "(target < length a \<longrightarrow> sum_squares (oracle_op a target) = sum_squares a)
   \<and> sum_squares (diffusion_serial a) = sum_squares a
   \<and> sum_squares (diffusion_parallel a T) = sum_squares a
   \<and> sum_squares (reflect_loop m a) =
       4 * m * m * real (length a) - 4 * m * sum_list a + sum_squares a
   \<and> (0 < N \<and> target < N \<longrightarrow>
       sum_squares (init_state N) = 1
       \<and> sum_squares (grover_loop (init_state N) target iterations parallel T) = 1)"
  by (simp add: sum_squares_oracle_op sum_squares_diffusion_serial diffusion_parallel_serial
      sum_squares_reflect_loop sum_squares_init_state grover_loop_def
      sum_squares_grover_rounds length_init_state)

theorem sum_squares_preserved_witness:
  "(0 :: nat) < length [3, 4 :: real]
   \<and> sum_squares (oracle_op [3, 4] 0) = 25
   \<and> sum_squares (diffusion_serial [3, 4]) = 25
   \<and> sum_squares (diffusion_parallel [3, 4] 2) = 25
   \<and> (0 :: nat) < 4 \<and> (1 :: nat) < 4
   \<and> sum_squares (grover_loop (init_state 4) 1 2 True 2) = 1"
  using sum_squares_preserved [of 0 "[3, 4]" 2 0 4]
    sum_squares_preserved [of 1 "[3, 4]" 2 0 4 2 True]
  by (simp add: sum_squares_def)

section \<open>The command line\<close>

subsection \<open>Evaluation on small arguments\<close>

lemma grover_iterations_4: "grover_iterations 4 = 1"
proof -
  have "pi / 4 * sqrt (real (unat (4 :: 64 word))) = pi / 2"
    by simp
  moreover have "\<lfloor>pi / 2\<rfloor> = 1"
    using pi_ge_two pi_less_4 by (intro floor_unique) simp_all
  ultimately show ?thesis by (simp add: grover_iterations_def)
qed

lemma atoll_4: "atoll ''4'' = 4"
  by (simp add: atoll_def strtoll_def isspace_def isdigit_def Let_def)

lemma atoi_0: "atoi ''0'' = 0"
  by (simp add: atoi_def strtoll_def isspace_def isdigit_def Let_def)

lemma atoi_minus_1: "atoi ''-1'' = - 1"
  by (simp add: atoi_def strtoll_def isspace_def isdigit_def Let_def)

lemma is_power_of_two_4: "is_power_of_two 4"
  by (simp add: is_power_of_two_def)

lemma rand_call_example: "rand_call env_ok initial_seed = 5"
  by (simp add: rand_call_def env_ok_def initial_seed_def example_rand_def)

subsection \<open>The iteration count fits an \<open>int\<close> for every size that can be allocated\<close>

lemma grover_iterations_bound:
  assumes "unat N < 2 ^ 61"
  shows "grover_iterations N \<le> 2147483647"
proof -
  let ?x = "real (unat N)"
  have "unat N \<le> (2 ^ 31)\<^sup>2"
    using assms by simp
  then have "?x \<le> real ((2 ^ 31)\<^sup>2)"
    by (simp only: of_nat_le_iff)
  then have "sqrt ?x \<le> sqrt ((2 ^ 31)\<^sup>2)"
    by (simp only: real_sqrt_le_iff) simp
  then have root: "sqrt ?x \<le> 2 ^ 31"
    by simp
  have less: "pi / 4 * sqrt ?x < 2 ^ 31"
  proof (cases "sqrt ?x = 0")
    case True
    then show ?thesis by simp
  next
    case False
    moreover have "0 \<le> ?x" by (rule of_nat_0_le_iff)
    then have "0 \<le> sqrt ?x" by (rule real_sqrt_ge_zero)
    ultimately have "0 < sqrt ?x" by linarith
    then have "pi / 4 * sqrt ?x < 1 * sqrt ?x"
      using pi_less_4 by (intro mult_strict_right_mono) simp_all
    then show ?thesis using root by simp
  qed
  have "\<lfloor>pi / 4 * sqrt ?x\<rfloor> < 2 ^ 31"
    using less by (simp add: floor_less_iff)
  then show ?thesis
    by (simp add: grover_iterations_def)
qed

lemma unat_times_8:
  assumes "unat (N :: 64 word) < 2 ^ 61"
  shows "unat (8 * N) = 8 * unat N"
  using assms by (simp add: unat_word_ariths)

lemma is_power_of_two_pos: "is_power_of_two N \<Longrightarrow> 0 < unat N"
  by (simp add: is_power_of_two_def unat_gt_0)

lemma pi_ge_three: "3 \<le> pi"
proof -
  have "sin (pi / 6) \<le> pi / 6"
    by (rule sin_x_le_x) simp
  then show ?thesis
    by (simp add: sin_30)
qed

lemma grover_iterations_overflow: "2147483647 < grover_iterations (2 ^ 63)"
proof -
  have x: "real (unat (2 ^ 63 :: 64 word)) = (2 ^ 31)\<^sup>2 * 2"
    by simp
  have "sqrt ((2 ^ 31)\<^sup>2 * 2) = 2 ^ 31 * sqrt 2"
    by (simp only: real_sqrt_mult) simp
  moreover have "7 / 5 < sqrt 2"
    by (rule real_less_rsqrt) (simp add: power2_eq_square)
  then have "3 * (7 / 5) \<le> pi * sqrt 2"
    using pi_ge_three by (intro mult_mono) simp_all
  ultimately have "2147483648 \<le> pi / 4 * sqrt ((2 ^ 31)\<^sup>2 * 2)"
    by simp
  then have "2147483648 \<le> \<lfloor>pi / 4 * sqrt ((2 ^ 31)\<^sup>2 * 2)\<rfloor>"
    by (simp add: le_floor_iff)
  then show ?thesis
    by (simp only: grover_iterations_def x) 
qed

subsection \<open>The two results of \<open>run_grover_once\<close>\<close>

lemma env_ok_clock: "clock_t1 env_ok - clock_t0 env_ok = 1"
  by (simp add: env_ok_def)

lemma run_grover_once_ok:
  assumes "malloc_ok e (8 * N)" and "unat N < 2 ^ 61" and "target < unat N"
  shows "run_grover_once e N target iterations parallel threads =
     Inr \<lparr>elapsed = clock_t1 e - clock_t0 e, run_stderr = [],
          final_state = Some (grover_loop (init_state (unat N)) target iterations parallel threads)\<rparr>"
  using assms by (simp add: run_grover_once_def unat_times_8 Let_def)

lemma run_grover_once_no_memory:
  assumes "\<not> malloc_ok e (8 * N)"
  shows "run_grover_once e N target iterations parallel threads =
     Inr \<lparr>elapsed = - 1, run_stderr = [''allocation failed''], final_state = None\<rparr>"
  using assms by (simp add: run_grover_once_def)




subsection \<open>What \<open>is_power_of_two\<close> accepts\<close>

lemma atoll_min: "atoll ''-9223372036854775808'' = - (2 ^ 63)"
  by (simp add: atoll_def strtoll_def isspace_def isdigit_def Let_def)

lemma word_min_long_long: "(- 9223372036854775808 :: 64 word) = 9223372036854775808"
  by simp

lemma nat_and_pred_zero:
  fixes n :: nat
  shows "0 < n \<Longrightarrow> n AND (n - 1) = 0 \<Longrightarrow> \<exists>k. n = 2 ^ k"
proof (induction n rule: less_induct)
  case (less n)
  show ?case
  proof (cases "even n")
    case True
    then obtain m where m: "n = 2 * m" by (elim evenE)
    with less.prems have mpos: "0 < m" by simp
    have "(n - 1) div 2 = m - 1"
      using m mpos by simp
    moreover have "n div 2 = m"
      using m by simp
    ultimately have "n AND (n - 1) = 2 * (m AND (m - 1))"
      using True by (subst and_rec) simp
    with less.prems have "m AND (m - 1) = 0" by simp
    moreover have "m < n" using m mpos by simp
    ultimately obtain k where "m = 2 ^ k"
      using less.IH [of m] mpos by blast
    with m have "n = 2 ^ Suc k" by simp
    then show ?thesis by blast
  next
    case False
    then obtain m where m: "n = 2 * m + 1" by (elim oddE)
    have "n AND (n - 1) = 2 * (m AND m)"
      using m by (subst and_rec) simp
    with less.prems have "m = 0" by simp
    with m have "n = 2 ^ 0" by simp
    then show ?thesis by blast
  qed
qed

lemma is_power_of_two_imp:
  assumes "is_power_of_two x"
  shows "\<exists>k<64. x = 2 ^ k"
proof -
  from assms have nz: "x \<noteq> 0" and a: "x AND (x - 1) = 0"
    by (simp_all add: is_power_of_two_def)
  have "unat (x AND (x - 1)) = unat x AND unat (x - 1)"
    by (simp add: unsigned_and_eq)
  moreover have "unat (x - 1) = unat x - 1"
    using nz by (simp add: unat_minus_one)
  ultimately have "unat x AND (unat x - 1) = 0"
    using a by simp
  moreover have "0 < unat x"
    using nz by (simp add: unat_gt_0)
  ultimately obtain k where k: "unat x = 2 ^ k"
    using nat_and_pred_zero by blast
  have "unat x < 2 ^ 64"
    using unsigned_less [of x] by simp
  with k have "k < 64"
    using power_increasing [of 64 k "2 :: nat"] by (cases "k < 64") simp_all
  moreover have "x = 2 ^ k"
  proof -
    have "x = word_of_nat (unat x)" by simp
    also have "\<dots> = word_of_nat (2 ^ k)" by (simp only: k)
    also have "\<dots> = 2 ^ k" by simp
    finally show ?thesis .
  qed
  ultimately show ?thesis by blast
qed


lemma atoll_range: "- (2 ^ 63) \<le> atoll s \<and> atoll s \<le> 2 ^ 63 - 1"
  by (simp add: atoll_def strtoll_def Let_def)

lemma not_power_of_two_word:
  fixes n :: int
  assumes lo: "- (2 ^ 63) < n" and hi: "n < 2 ^ 63"
    and bad: "n \<le> 0 \<or> (\<forall>k. n \<noteq> 2 ^ k)"
  shows "\<not> is_power_of_two (word_of_int n)"
proof
  assume "is_power_of_two (word_of_int n :: 64 word)"
  then obtain k where k: "k < 64" and w: "(word_of_int n :: 64 word) = 2 ^ k"
    using is_power_of_two_imp by blast
  have "(2 :: int) ^ k < 2 ^ 64"
    using k by (intro power_strict_increasing) simp_all
  moreover have "(2 ^ k :: 64 word) = word_of_int (2 ^ k)"
    by simp
  ultimately have u: "uint (2 ^ k :: 64 word) = 2 ^ k"
    by (simp only: uint_word_of_int) simp
  have le: "(2 :: int) ^ k \<le> 2 ^ 63"
    using k by (intro power_increasing) simp_all
  have pos: "(0 :: int) < 2 ^ k"
    by simp
  show False
  proof (cases "0 \<le> n")
    case True
    then have "uint (word_of_int n :: 64 word) = n"
      using hi by (simp add: uint_word_of_int)
    with w u have "n = 2 ^ k" by simp
    with bad pos show False by auto
  next
    case False
    have "n mod 2 ^ 64 = (n + 2 ^ 64) mod 2 ^ 64"
      by simp
    also have "\<dots> = n + 2 ^ 64"
      using False lo by (intro mod_pos_pos_trivial) simp_all
    finally have "uint (word_of_int n :: 64 word) = n + 2 ^ 64"
      by (simp add: uint_word_of_int)
    with w u have "n + 2 ^ 64 = 2 ^ k" by simp
    with le lo show False by simp
  qed
qed

lemma serial_rejects_size:
  assumes "- (2 ^ 63) < atoll s"
    and "atoll s \<le> 0 \<or> (\<forall>k. atoll s \<noteq> 2 ^ k)"
  shows "main e [prog, ''serial'', s] =
     Inr (Exited \<lparr>exit_status = 1, stdout = [], stderr = [''N must be power of two''],
       target_used = None, vector_state = None\<rparr>)"
proof -
  have "atoll s < 2 ^ 63"
    using atoll_range [of s] by simp
  with assms have "\<not> is_power_of_two (word_of_int (atoll s))"
    by (intro not_power_of_two_word)
  then show ?thesis
    by (simp add: main_def)
qed

subsection \<open>Thread count, allocation failure and size validation\<close>

text \<open>
  Claim C4, as stated: a parallel run with a thread count below one raises
  \<open>InvalidThreadCount\<close> before any work and exits with a non-zero status. It fails on
  \<open>grover.c\<close>: \<open>parallel 4 0\<close> runs the round loop on the vector, prints its record line
  and returns \<open>0\<close>.
\<close>

theorem parallel_zero_threads_runs:
  "atoi ''0'' < 1
   \<and> main env_ok [''grover'', ''parallel'', ''4'', ''0''] =
       Inr (Exited \<lparr>exit_status = 0, stdout = [Record_line ''parallel'' 4 1 0 1],
         stderr = [], target_used = Some 1, vector_state = Some [0, 1, 0, 0]\<rparr>)"
proof -
  have run: "run_grover_once env_ok 4 (Suc 0) 1 True 0 =
      Inr \<lparr>elapsed = 1, run_stderr = [], final_state = Some [0, 1, 0, 0]\<rparr>"
    by (simp add: run_grover_once_def env_ok_def malloc_succeeds_def init_state_4
        grover_loop_one oracle_op_4_1 diffusion_parallel_serial diffusion_serial_4 Let_def)
  show ?thesis
    by (simp add: main_def atoll_4 atoi_0 is_power_of_two_4 grover_iterations_4
        rand_call_example run Let_def)
qed

text \<open>
  Claim C4, amended. For a parallel run with a thread count \<open>T < 1\<close> (such as \<open>0\<close> or
  \<open>-1\<close>) no error is raised: \<open>main\<close> hands \<open>T\<close> unchecked to \<open>run_grover_once\<close>, the run is
  carried out, the record line \<open>parallel,N,iterations,T,time\<close> is printed and the exit
  status is \<open>0\<close>, for every \<open>N\<close> that is a power of two below \<open>2^61\<close> and whose storage
  \<open>malloc\<close> returns.
\<close>

theorem parallel_thread_count_unchecked:
  assumes "atoi t < 1"
    and "N = word_of_int (atoll s)"
    and "is_power_of_two N"
    and "unat N < 2 ^ 61"
    and "malloc_ok e (8 * N)"
  shows "main e [prog, ''parallel'', s, t] =
     Inr (Exited \<lparr>exit_status = 0,
       stdout = [Record_line ''parallel'' (unat N) (grover_iterations N) (atoi t)
                  (clock_t1 e - clock_t0 e)],
       stderr = [],
       target_used = Some (rand_call e initial_seed mod unat N),
       vector_state = Some (grover_loop (init_state (unat N))
         (rand_call e initial_seed mod unat N) (grover_iterations N) True (atoi t))\<rparr>)"
proof -
  have pos: "0 < unat N"
    using assms(3) by (rule is_power_of_two_pos)
  have it: "\<not> 2147483647 < grover_iterations N"
    using grover_iterations_bound [OF assms(4)] by simp
  have run: "run_grover_once e N (rand_call e initial_seed mod unat N) (grover_iterations N)
      True (atoi t) =
     Inr \<lparr>elapsed = clock_t1 e - clock_t0 e, run_stderr = [],
          final_state = Some (grover_loop (init_state (unat N))
            (rand_call e initial_seed mod unat N) (grover_iterations N) True (atoi t))\<rparr>"
    using assms(5) assms(4) pos by (intro run_grover_once_ok) simp_all
  show ?thesis
    using assms(3) it by (simp add: main_def assms(2) [symmetric] Let_def run)
qed

theorem parallel_thread_count_unchecked_witness:
  "atoi ''-1'' < 1
   \<and> (4 :: 64 word) = word_of_int (atoll ''4'')
   \<and> is_power_of_two 4
   \<and> unat (4 :: 64 word) < 2 ^ 61
   \<and> malloc_ok env_ok (8 * 4)
   \<and> main env_ok [''grover'', ''parallel'', ''4'', ''-1''] =
       Inr (Exited \<lparr>exit_status = 0,
         stdout = [Record_line ''parallel'' 4 1 (- 1) 1],
         stderr = [],
         target_used = Some 1,
         vector_state = Some [0, 1, 0, 0]\<rparr>)"
proof -
  have h1: "atoi ''-1'' < 1"
    by (simp add: atoi_minus_1)
  have h2: "(4 :: 64 word) = word_of_int (atoll ''4'')"
    by (simp add: atoll_4)
  have h4: "unat (4 :: 64 word) < 2 ^ 61"
    by simp
  have h5: "malloc_ok env_ok (8 * 4)"
    by (simp add: env_ok_def malloc_succeeds_def)
  have v: "grover_loop (init_state 4) (Suc 0) 1 True (- 1) = [0, 1, 0, 0]"
    by (simp add: init_state_4 grover_loop_one oracle_op_4_1 diffusion_parallel_serial
        diffusion_serial_4 Let_def)
  have "main env_ok [''grover'', ''parallel'', ''4'', ''-1''] =
       Inr (Exited \<lparr>exit_status = 0,
         stdout = [Record_line ''parallel'' 4 1 (- 1) 1],
         stderr = [],
         target_used = Some 1,
         vector_state = Some [0, 1, 0, 0]\<rparr>)"
    using parallel_thread_count_unchecked [OF h1 h2 is_power_of_two_4 h4 h5, of "''grover''"]
    by (simp add: grover_iterations_4 rand_call_example atoi_minus_1 v env_ok_clock)
  with h1 h2 h4 h5 is_power_of_two_4 show ?thesis
    by simp
qed

text \<open>
  Claim C5, at the input where the code departs from it: \<open>serial 576460752303423488\<close>
  (\<open>N = 2^59\<close>) when \<open>malloc\<close> returns no storage. \<open>run_grover_once\<close> reports the failure
  by the message and the value \<open>-1.0\<close> and exposes no vector, but \<open>main\<close> of \<open>grover.c\<close>
  does not look at the value: it prints the record line with the time \<open>-1\<close> and returns
  \<open>0\<close>. The serial C++ program does what the claim says on the same size: status \<open>3\<close>
  and nothing on standard output.
\<close>

theorem allocation_failure_still_prints_record:
  "main env_no_memory [''grover'', ''serial'', ''576460752303423488''] =
     Inr (Exited \<lparr>exit_status = 0,
       stdout = [Record_line ''serial'' 576460752303423488
                  (grover_iterations 576460752303423488) 1 (- 1)],
       stderr = [''allocation failed''], target_used = Some 5, vector_state = None\<rparr>)
   \<and> grover_serial_main env_no_memory [''grover_serial'', ''576460752303423488''] =
     Inr (Exited \<lparr>exit_status = 3, stdout = [], stderr = [''ERROR:MEM''],
       target_used = None, vector_state = None\<rparr>)"
proof -
  have m: "\<not> malloc_ok env_no_memory bytes" for bytes
    by (simp add: env_no_memory_def malloc_fails_def)
  have r: "rand_call env_no_memory initial_seed = 5"
    by (simp add: rand_call_def env_no_memory_def initial_seed_def example_rand_def)
  have a: "atoll ''576460752303423488'' = 576460752303423488"
    by (simp add: atoll_def strtoll_def isspace_def isdigit_def Let_def)
  have p: "is_power_of_two 576460752303423488"
    by (simp add: is_power_of_two_def)
  have "unat (576460752303423488 :: 64 word) < 2 ^ 61"
    by simp
  then have i: "\<not> 2147483647 < grover_iterations 576460752303423488"
    using grover_iterations_bound [of 576460752303423488] by simp
  have "main env_no_memory [''grover'', ''serial'', ''576460752303423488''] =
     Inr (Exited \<lparr>exit_status = 0,
       stdout = [Record_line ''serial'' 576460752303423488
                  (grover_iterations 576460752303423488) 1 (- 1)],
       stderr = [''allocation failed''], target_used = Some 5, vector_state = None\<rparr>)"
    using i by (simp add: main_def a p r run_grover_once_no_memory [OF m] Let_def)
  moreover have "grover_serial_main env_no_memory [''grover_serial'', ''576460752303423488''] =
     Inr (Exited \<lparr>exit_status = 3, stdout = [], stderr = [''ERROR:MEM''],
       target_used = None, vector_state = None\<rparr>)"
    by (simp add: grover_serial_main_def a m Let_def)
  ultimately show ?thesis
    by simp
qed

text \<open>
  Claim C7, at the input where the code departs from it:
  \<open>serial -9223372036854775808\<close>. The negative \<open>long long\<close> is converted to \<open>size_t\<close>
  before it is validated and becomes \<open>2^63\<close>, which \<open>is_power_of_two\<close> accepts; the
  program does not exit with status \<open>1\<close> there but goes on to the conversion of an
  iteration count that no \<open>int\<close> holds. (By \<open>serial_rejects_size\<close> this is the only
  rejected size of the claim that \<open>main\<close> lets through.)
\<close>

theorem serial_accepts_negative_size:
  "atoll ''-9223372036854775808'' < 0
   \<and> is_power_of_two (word_of_int (atoll ''-9223372036854775808''))
   \<and> main e [''grover'', ''serial'', ''-9223372036854775808''] = Inl Undefined_behaviour"
proof -
  have p: "is_power_of_two 9223372036854775808"
    by (simp add: is_power_of_two_def)
  have i: "2147483647 < grover_iterations 9223372036854775808"
    using grover_iterations_overflow by simp
  show ?thesis
    using i p by (simp add: main_def atoll_min word_min_long_long Let_def)
qed

subsection \<open>The target of a single run\<close>



end
